theory Spec2Isabelle
  imports Main "HOL-Library.Word"
begin

section \<open>JavaScript values\<close>

text \<open>
  The server (\<^verbatim>\<open>src/server.js\<close>) is an Express application with two routes.  Its
  handlers work on untyped JSON: every test of the form \<^verbatim>\<open>!x\<close>, \<^verbatim>\<open>x ? a : b\<close> and
  \<^verbatim>\<open>x || y\<close> is a truthiness test, and a method call on a value that lacks the method
  throws a \<^verbatim>\<open>TypeError\<close> that the handler's \<^verbatim>\<open>catch\<close> block turns into a response.
  The embedding keeps both.

  A JavaScript string is a sequence of UTF-16 code units.
\<close>

type_synonym code_unit = "16 word"
type_synonym jsstring = "code_unit list"

text \<open>The string literals of the source are ASCII; \<open>js\<close> reads one as code units.\<close>

definition js :: "string \<Rightarrow> jsstring" where
  "js s = map of_char s"

text \<open>
  A value as \<^verbatim>\<open>express.json()\<close> and the upstream SDK deliver it.  A number is
  represented by its canonical rendering (what \<^verbatim>\<open>String(n)\<close> returns), which fixes the
  number up to the sign of zero; the handler only tests numbers for truthiness, interpolates
  them into a template and passes them on.  An object is the list of its own properties.
\<close>

datatype jsval =
    Undefined
  | Null
  | Bool bool
  | Num jsstring
  | Str jsstring
  | Arr "jsval list"
  | Obj "(jsstring \<times> jsval) list"

text \<open>What the \<^verbatim>\<open>try\<close> block can throw: a \<^verbatim>\<open>TypeError\<close> of the engine (no \<^verbatim>\<open>status\<close>
  property), or the error the upstream SDK rejects with (\<^verbatim>\<open>error.status\<close>, a number or
  undefined, and \<^verbatim>\<open>error.message\<close>).\<close>

datatype thrown =
    TypeError
  | OpenAIError "int option" jsstring

text \<open>\<^verbatim>\<open>error.message\<close>: the text of an engine error is engine specific and stays symbolic.\<close>

datatype error_text =
    Engine_text
  | Upstream_text jsstring

fun error_status :: "thrown \<Rightarrow> int option" where
  "error_status TypeError = None"
| "error_status (OpenAIError st msg) = st"

fun error_message :: "thrown \<Rightarrow> error_text" where
  "error_message TypeError = Engine_text"
| "error_message (OpenAIError st msg) = Upstream_text msg"

text \<open>ToBoolean.\<close>

fun truthy :: "jsval \<Rightarrow> bool" where
  "truthy Undefined = False"
| "truthy Null = False"
| "truthy (Bool b) = b"
| "truthy (Num r) = (r \<noteq> js ''0'' \<and> r \<noteq> js ''NaN'')"
| "truthy (Str s) = (s \<noteq> [])"
| "truthy (Arr xs) = True"
| "truthy (Obj kvs) = True"

text \<open>A value that may be undefined: an environment variable, a request header.\<close>

fun or_undefined :: "jsstring option \<Rightarrow> jsval" where
  "or_undefined None = Undefined"
| "or_undefined (Some s) = Str s"

text \<open>
  Property access \<^verbatim>\<open>v.k\<close>, for the property names the handlers read (\<^verbatim>\<open>message\<close>,
  \<^verbatim>\<open>conversationHistory\<close>, \<^verbatim>\<open>selectedText\<close>, \<^verbatim>\<open>image\<close>, \<^verbatim>\<open>role\<close>, \<^verbatim>\<open>content\<close>,
  \<^verbatim>\<open>choices\<close>, \<^verbatim>\<open>usage\<close>): none of them is a built-in property of a string, number,
  boolean, array or plain object, so only an own property of an object yields a value.
  Reading a property of \<^verbatim>\<open>undefined\<close> or \<^verbatim>\<open>null\<close> throws.
\<close>

fun get :: "jsval \<Rightarrow> jsstring \<Rightarrow> jsval" where
  "get (Obj kvs) k = (case map_of kvs k of None \<Rightarrow> Undefined | Some v \<Rightarrow> v)"
| "get v k = Undefined"

definition nullish :: "jsval \<Rightarrow> bool" where
  "nullish v = (v = Undefined \<or> v = Null)"

definition property :: "jsval \<Rightarrow> jsstring \<Rightarrow> thrown + jsval" where
  "property v k = (if nullish v then Inl TypeError else Inr (get v k))"

text \<open>Element access \<^verbatim>\<open>v[0]\<close>.\<close>

fun index0 :: "jsval \<Rightarrow> thrown + jsval" where
  "index0 Undefined = Inl TypeError"
| "index0 Null = Inl TypeError"
| "index0 (Arr xs) = Inr (case xs of [] \<Rightarrow> Undefined | x # _ \<Rightarrow> x)"
| "index0 (Str s) = Inr (case s of [] \<Rightarrow> Undefined | c # _ \<Rightarrow> Str [c])"
| "index0 (Obj kvs) = Inr (get (Obj kvs) (js ''0''))"
| "index0 v = Inr Undefined"

text \<open>
  \<^verbatim>\<open>String.prototype.trim\<close> strips the WhiteSpace and LineTerminator code points of the
  language standard from both ends.
\<close>

definition is_white_space :: "code_unit \<Rightarrow> bool" where
  "is_white_space c =
     (c \<in> set [0x0009, 0x000A, 0x000B, 0x000C, 0x000D, 0x0020, 0x00A0, 0x1680,
                0x2028, 0x2029, 0x202F, 0x205F, 0x3000, 0xFEFF]
      \<or> (0x2000 \<le> c \<and> c \<le> 0x200A))"

definition trim :: "jsstring \<Rightarrow> jsstring" where
  "trim s = rev (dropWhile is_white_space (rev (dropWhile is_white_space s)))"

text \<open>
  ToString, as a template literal applies it to an interpolated value.  An array joins its
  elements with commas, \<^verbatim>\<open>null\<close> and \<^verbatim>\<open>undefined\<close> elements giving the empty string.  A
  plain object gives \<^verbatim>\<open>[object Object]\<close>, unless it has an own property \<^verbatim>\<open>toString\<close>:
  a JSON value is never callable, so the conversion finds no usable method and throws.
\<close>

fun to_string :: "jsval \<Rightarrow> thrown + jsstring"
  and join :: "jsval list \<Rightarrow> thrown + jsstring" where
  "to_string Undefined = Inr (js ''undefined'')"
| "to_string Null = Inr (js ''null'')"
| "to_string (Bool b) = Inr (js (if b then ''true'' else ''false''))"
| "to_string (Num r) = Inr r"
| "to_string (Str s) = Inr s"
| "to_string (Arr xs) = join xs"
| "to_string (Obj kvs) =
     (if js ''toString'' \<in> fst ` set kvs then Inl TypeError
      else Inr (js ''[object Object]''))"
| "join [] = Inr []"
| "join (x # xs) =
     (case (if nullish x then Inr [] else to_string x) of
        Inl e \<Rightarrow> Inl e
      | Inr s \<Rightarrow>
          (if xs = [] then Inr s
           else (case join xs of Inl e \<Rightarrow> Inl e | Inr r \<Rightarrow> Inr (s @ js '','' @ r))))"

text \<open>\<^verbatim>\<open>String.prototype.split\<close> with a one-character separator.\<close>

fun split :: "code_unit \<Rightarrow> jsstring \<Rightarrow> jsstring list" where
  "split sep [] = [[]]"
| "split sep (c # cs) =
     (if c = sep then [] # split sep cs
      else (case split sep cs of [] \<Rightarrow> [[c]] | p # ps \<Rightarrow> (c # p) # ps))"


section \<open>Process configuration\<close>

text \<open>\<^verbatim>\<open>process.env\<close>, as far as the server reads it; \<open>None\<close> is an unset variable.\<close>

record env =
  OPENAI_API_KEY :: "jsstring option"
  NODE_ENV :: "jsstring option"
  ALLOWED_ORIGINS :: "jsstring option"

text \<open>Lines 17--20: \<^verbatim>\<open>process.env.ALLOWED_ORIGINS?.split(',') || [...]\<close>.  The result of
  \<^verbatim>\<open>split\<close> is an array, hence truthy: the default applies only to an unset variable.\<close>

definition allowedOrigins :: "env \<Rightarrow> jsstring list" where
  "allowedOrigins e =
     (case ALLOWED_ORIGINS e of
        None \<Rightarrow> [js ''http://localhost:5173'', js ''https://barbarapdfeditor.net'']
      | Some s \<Rightarrow> split (of_char CHR '','') s)"


section \<open>The CORS layer\<close>

datatype cors_result = Allow | Not_allowed_by_CORS

text \<open>Lines 23--32: the \<^verbatim>\<open>origin\<close> callback, called with the request's
  \<^verbatim>\<open>Origin\<close> header (undefined when the request has none).\<close>

definition cors_origin :: "jsstring list \<Rightarrow> jsstring option \<Rightarrow> cors_result" where
  "cors_origin allowed origin =
     (if \<not> truthy (or_undefined origin) then Allow
      else if or_undefined origin \<in> set (map Str allowed) then Allow
      else Not_allowed_by_CORS)"


section \<open>Responses\<close>

datatype reply_body =
    Health_json jsstring jsstring bool
  | Completion_json jsval jsval
  | Error_json jsstring "error_text option"

text \<open>\<open>Health_json status message openaiConfigured\<close>, \<open>Completion_json response usage\<close>
  and \<open>Error_json error details\<close>; a \<^verbatim>\<open>details\<close> that is undefined is left out of the
  JSON text (\<open>None\<close>).\<close>

record http_response =
  status :: nat
  body :: reply_body


section \<open>The health endpoint\<close>

text \<open>Lines 39--45.\<close>

definition health :: "env \<Rightarrow> http_response" where
  "health e =
     \<lparr>status = 200,
      body = Health_json (js ''ok'') (js ''BarbaraPDF Backend Running'')
               (truthy (or_undefined (OPENAI_API_KEY e)))\<rparr>"


section \<open>The tutor endpoint\<close>

subsection \<open>The upstream call\<close>

datatype content_part =
    Text_part jsval
  | Image_url_part jsval

text \<open>\<open>Text_part t\<close> is \<^verbatim>\<open>{type: 'text', text: t}\<close> and \<open>Image_url_part u\<close> is
  \<^verbatim>\<open>{type: 'image_url', image_url: {url: u}}\<close>.\<close>

datatype content =
    Plain jsval
  | Parts "content_part list"

record chat_message =
  role :: jsstring
  content :: content

record api_call =
  model :: jsstring
  messages :: "chat_message list"
  temperature :: jsval
  max_tokens :: jsval

text \<open>The awaited promise of \<^verbatim>\<open>openai.chat.completions.create\<close> resolves with a
  completion or rejects with an error.\<close>

datatype upstream_result =
    Resolved jsval
  | Rejected thrown

type_synonym upstream = "api_call \<Rightarrow> upstream_result"

subsection \<open>Reading the request\<close>

record fields =
  message :: jsval
  conversationHistory :: jsval
  selectedText :: jsval
  image :: jsval

text \<open>Line 50: the destructuring of \<^verbatim>\<open>req.body\<close>; a default replaces an undefined
  property only.\<close>

definition destructure :: "jsval \<Rightarrow> thrown + fields" where
  "destructure b =
     (if nullish b then Inl TypeError
      else Inr \<lparr>message = get b (js ''message''),
                conversationHistory =
                  (if get b (js ''conversationHistory'') = Undefined then Arr []
                   else get b (js ''conversationHistory'')),
                selectedText =
                  (if get b (js ''selectedText'') = Undefined then Str []
                   else get b (js ''selectedText'')),
                image = get b (js ''image'')\<rparr>)"

text \<open>Line 52, \<^verbatim>\<open>!message || message.trim() === ''\<close>: only a string has \<^verbatim>\<open>trim\<close>.\<close>

definition message_missing :: "jsval \<Rightarrow> thrown + bool" where
  "message_missing m =
     (if \<not> truthy m then Inr True
      else (case m of Str s \<Rightarrow> Inr (trim s = []) | _ \<Rightarrow> Inl TypeError))"

subsection \<open>Building the prompt\<close>

definition prompt_head :: jsstring where
  "prompt_head = js
''You are BarbaraIA, an educational AI tutor for K-12 students. Your role is to:\<newline>- Explain concepts clearly and simply\<newline>- Break down complex topics into understandable parts\<newline>- Provide step-by-step solutions to problems\<newline>- Give relevant examples\<newline>- Encourage critical thinking\<newline>- Be patient and supportive\<newline>- Adapt explanations to student level\<newline>- When analyzing images: describe what you see, explain diagrams, solve visual math problems, read handwriting\<newline>\<newline>''"

definition prompt_tail :: jsstring where
  "prompt_tail = js
''\<newline>\<newline>Always respond in a friendly, educational manner. If asked to solve a problem, guide the student through the solution rather than just giving the answer.''"

text \<open>Lines 63--75.\<close>

definition systemPrompt :: "jsval \<Rightarrow> thrown + jsstring" where
  \<open>systemPrompt selected =
     (if truthy selected then
        (case to_string selected of
           Inl e \<Rightarrow> Inl e
         | Inr s \<Rightarrow>
             Inr (prompt_head
                  @ js ''The student has selected this text from their PDF: "'' @ s @ js ''"''
                  @ prompt_tail))
      else Inr (prompt_head @ prompt_tail))\<close>

text \<open>Lines 80--94: the function mapped over \<^verbatim>\<open>conversationHistory\<close>.\<close>

definition history_entry :: "jsval \<Rightarrow> thrown + chat_message" where
  "history_entry msg =
     (case property msg (js ''image'') of
        Inl e \<Rightarrow> Inl e
      | Inr img \<Rightarrow>
          (if truthy img then
             Inr \<lparr>role = (if get msg (js ''role'') = Str (js ''user'') then js ''user''
                          else js ''assistant''),
                  content = Parts [Text_part (get msg (js ''content'')),
                                   Image_url_part (get msg (js ''image''))]\<rparr>
           else
             Inr \<lparr>role = (if get msg (js ''role'') = Str (js ''user'') then js ''user''
                          else js ''assistant''),
                  content = Plain (get msg (js ''content''))\<rparr>))"

fun map_history :: "jsval list \<Rightarrow> thrown + chat_message list" where
  "map_history [] = Inr []"
| "map_history (m # ms) =
     (case history_entry m of
        Inl e \<Rightarrow> Inl e
      | Inr x \<Rightarrow> (case map_history ms of Inl e \<Rightarrow> Inl e | Inr xs \<Rightarrow> Inr (x # xs)))"

text \<open>Lines 98--111: the current message.\<close>

definition current_message :: "jsval \<Rightarrow> jsval \<Rightarrow> chat_message" where
  "current_message msg img =
     (if truthy img then
        \<lparr>role = js ''user'',
         content = Parts [Text_part (if truthy msg then msg
                                     else Str (js ''What do you see in this image?'')),
                          Image_url_part img]\<rparr>
      else \<lparr>role = js ''user'', content = Plain msg\<rparr>)"

text \<open>Lines 63--111: the \<^verbatim>\<open>messages\<close> array.  Only an array has \<^verbatim>\<open>map\<close>.\<close>

definition build_messages :: "fields \<Rightarrow> thrown + chat_message list" where
  "build_messages f =
     (case systemPrompt (selectedText f) of
        Inl e \<Rightarrow> Inl e
      | Inr p \<Rightarrow>
          (case conversationHistory f of
             Arr ms \<Rightarrow>
               (case map_history ms of
                  Inl e \<Rightarrow> Inl e
                | Inr hs \<Rightarrow>
                    Inr (\<lparr>role = js ''system'', content = Plain (Str p)\<rparr>
                         # hs @ [current_message (message f) (image f)]))
           | _ \<Rightarrow> Inl TypeError))"

subsection \<open>The reply\<close>

text \<open>Lines 121--126: \<^verbatim>\<open>completion.choices[0].message.content\<close> and
  \<^verbatim>\<open>completion.usage\<close>.\<close>

definition completion_reply :: "jsval \<Rightarrow> thrown + http_response" where
  "completion_reply completion =
     (case property completion (js ''choices'') of
        Inl e \<Rightarrow> Inl e
      | Inr choices \<Rightarrow>
          (case index0 choices of
             Inl e \<Rightarrow> Inl e
           | Inr choice \<Rightarrow>
               (case property choice (js ''message'') of
                  Inl e \<Rightarrow> Inl e
                | Inr m \<Rightarrow>
                    (case property m (js ''content'') of
                       Inl e \<Rightarrow> Inl e
                     | Inr response \<Rightarrow>
                         Inr \<lparr>status = 200,
                              body = Completion_json response
                                       (get completion (js ''usage''))\<rparr>))))"

text \<open>Lines 128--148: the \<^verbatim>\<open>catch\<close> block.\<close>

definition catch_error :: "env \<Rightarrow> thrown \<Rightarrow> http_response" where
  "catch_error e error =
     (if error_status error = Some 401 then
        \<lparr>status = 401, body = Error_json (js ''Invalid OpenAI API key'') None\<rparr>
      else if error_status error = Some 429 then
        \<lparr>status = 429,
         body = Error_json (js ''Rate limit exceeded. Please try again later.'') None\<rparr>
      else if error_status error = Some 500 then
        \<lparr>status = 500,
         body = Error_json (js ''OpenAI service error. Please try again later.'') None\<rparr>
      else
        \<lparr>status = 500,
         body = Error_json (js ''Failed to get AI response'')
                  (if NODE_ENV e = Some (js ''development'') then Some (error_message error)
                   else None)\<rparr>)"

subsection \<open>The handler\<close>

text \<open>What one run of the handler does: the upstream calls it made, in order, and the
  response it sent.\<close>

record handled =
  calls :: "api_call list"
  reply :: http_response

text \<open>Lines 114--119: the parameters of the upstream call.\<close>

definition create_params :: "fields \<Rightarrow> chat_message list \<Rightarrow> api_call" where
  "create_params f ms =
     \<lparr>model = (if truthy (image f) then js ''gpt-4o'' else js ''gpt-4o-mini''),
      messages = ms,
      temperature = Num (js ''0.7''),
      max_tokens = Num (js ''500'')\<rparr>"

text \<open>Lines 49--126: the \<^verbatim>\<open>try\<close> block, returning the calls made and either the
  response sent or the error thrown.\<close>

definition tutor_try :: "env \<Rightarrow> upstream \<Rightarrow> jsval \<Rightarrow> api_call list \<times> (thrown + http_response)" where
  "tutor_try e create b =
     (case destructure b of
        Inl err \<Rightarrow> ([], Inl err)
      | Inr f \<Rightarrow>
          (case message_missing (message f) of
             Inl err \<Rightarrow> ([], Inl err)
           | Inr missing \<Rightarrow>
               if missing \<and> \<not> truthy (image f) then
                 ([], Inr \<lparr>status = 400,
                           body = Error_json (js ''Message or image is required'') None\<rparr>)
               else if \<not> truthy (or_undefined (OPENAI_API_KEY e)) then
                 ([], Inr \<lparr>status = 500,
                           body = Error_json (js ''OpenAI API key not configured. Please set OPENAI_API_KEY environment variable.'') None\<rparr>)
               else
                 (case build_messages f of
                    Inl err \<Rightarrow> ([], Inl err)
                  | Inr ms \<Rightarrow>
                      (case create (create_params f ms) of
                         Rejected err \<Rightarrow> ([create_params f ms], Inl err)
                       | Resolved completion \<Rightarrow>
                           ([create_params f ms], completion_reply completion)))))"

text \<open>Lines 48--149: the handler of \<^verbatim>\<open>POST /api/tutor\<close>.\<close>

definition tutor :: "env \<Rightarrow> upstream \<Rightarrow> jsval \<Rightarrow> handled" where
  "tutor e create b =
     (case tutor_try e create b of
        (cs, Inr r) \<Rightarrow> \<lparr>calls = cs, reply = r\<rparr>
      | (cs, Inl err) \<Rightarrow> \<lparr>calls = cs, reply = catch_error e err\<rparr>)"


section \<open>The application\<close>

text \<open>A request that has passed the body parser and matches one of the two routes.  The
  CORS middleware is installed first (line 22) and hands a refusal to the framework's error
  handling instead of the route.\<close>

datatype route =
    GET_health
  | POST_tutor jsval

record request =
  origin :: "jsstring option"
  route :: route

datatype outcome =
    CORS_error
  | Handled handled

fun handler :: "env \<Rightarrow> upstream \<Rightarrow> route \<Rightarrow> handled" where
  "handler e create GET_health = \<lparr>calls = [], reply = health e\<rparr>"
| "handler e create (POST_tutor b) = tutor e create b"

definition app :: "env \<Rightarrow> upstream \<Rightarrow> request \<Rightarrow> outcome" where
  "app e create req =
     (case cors_origin (allowedOrigins e) (origin req) of
        Not_allowed_by_CORS \<Rightarrow> CORS_error
      | Allow \<Rightarrow> Handled (handler e create (route req)))"


section \<open>Upstream behaviours for the examples\<close>

text \<open>An upstream that rejects every call with a given status, and one that answers
  every call with a one-choice completion.\<close>

definition upstream_rejects :: "int option \<Rightarrow> upstream" where
  "upstream_rejects st c = Rejected (OpenAIError st (js ''upstream failure''))"

definition upstream_answers :: upstream where
  "upstream_answers c =
     Resolved (Obj [(js ''choices'',
                     Arr [Obj [(js ''message'', Obj [(js ''content'', Str (js ''4''))])]]),
                    (js ''usage'', Obj [(js ''total_tokens'', Num (js ''42''))])])"


section \<open>Facts about the value operations\<close>

lemma unat_of_char: "unat (of_char c :: code_unit) = of_char c"
proof -
  have "(of_char c :: nat) < 256"
    by (metis of_char_mod_256 mod_less_divisor zero_less_numeral)
  then have "(of_char c :: nat) < 65536"
    by linarith
  then have "unat (of_nat (of_char c) :: code_unit) = of_char c"
    by (simp add: unsigned_of_nat take_bit_nat_eq_self)
  then show ?thesis
    by (simp add: of_nat_of_char)
qed

lemma of_char_code_unit_eq_iff: "(of_char c :: code_unit) = of_char d \<longleftrightarrow> c = d"
proof
  assume "(of_char c :: code_unit) = of_char d"
  then have "unat (of_char c :: code_unit) = unat (of_char d :: code_unit)"
    by simp
  then show "c = d"
    by (simp only: unat_of_char of_char_eq_iff)
qed simp

lemma js_eq_iff [simp]: "js a = js b \<longleftrightarrow> a = b"
  unfolding js_def by (rule inj_map_eq_map) (simp add: inj_on_def of_char_code_unit_eq_iff)

lemma js_eq_Nil_iff [simp]: "js a = [] \<longleftrightarrow> a = []" "[] = js a \<longleftrightarrow> a = []"
  by (auto simp: js_def)

lemma trim_eq_Nil_iff: "trim s = [] \<longleftrightarrow> (\<forall>c\<in>set s. is_white_space c)"
proof
  assume "trim s = []"
  then have all: "\<forall>c\<in>set (dropWhile is_white_space s). is_white_space c"
    by (simp add: trim_def)
  have "dropWhile is_white_space s = []"
  proof (rule ccontr)
    assume ne: "dropWhile is_white_space s \<noteq> []"
    then have "\<not> is_white_space (hd (dropWhile is_white_space s))"
      by (rule hd_dropWhile)
    moreover have "hd (dropWhile is_white_space s) \<in> set (dropWhile is_white_space s)"
      using ne by (rule hd_in_set)
    ultimately show False
      using all by blast
  qed
  then show "\<forall>c\<in>set s. is_white_space c"
    by simp
next
  assume "\<forall>c\<in>set s. is_white_space c"
  then show "trim s = []"
    by (auto simp: trim_def dest: set_dropWhileD)
qed

lemma message_missing_blank:
  "m = Undefined \<or> (\<exists>s. m = Str s \<and> (\<forall>c\<in>set s. is_white_space c))
   \<Longrightarrow> message_missing m = Inr True"
  by (auto simp: message_missing_def trim_eq_Nil_iff)


section \<open>Facts about the handler\<close>

lemma destructure_Inr:
  assumes "destructure b = Inr f"
  shows "message f = get b (js ''message'')"
    and "image f = get b (js ''image'')"
    and "conversationHistory f =
           (if get b (js ''conversationHistory'') = Undefined then Arr []
            else get b (js ''conversationHistory''))"
    and "selectedText f =
           (if get b (js ''selectedText'') = Undefined then Str []
            else get b (js ''selectedText''))"
  using assms by (auto simp: destructure_def split: if_splits)

lemma tutor_call:
  assumes "c \<in> set (calls (tutor e create b))"
  obtains f ms where "destructure b = Inr f"
    and "message_missing (message f) = Inr False \<or> truthy (image f)"
    and "build_messages f = Inr ms"
    and "c = create_params f ms"
    and "calls (tutor e create b) = [c]"
    and "reply (tutor e create b) =
           (case create c of
              Rejected err \<Rightarrow> catch_error e err
            | Resolved completion \<Rightarrow>
                (case completion_reply completion of
                   Inl err \<Rightarrow> catch_error e err
                 | Inr r \<Rightarrow> r))"
  using assms
  by (auto simp: tutor_def tutor_try_def
      split: sum.splits if_splits upstream_result.splits)

lemma map_history_Inr:
  "map_history xs = Inr hs \<Longrightarrow>
   length hs = length xs \<and> (\<forall>i<length xs. history_entry (xs ! i) = Inr (hs ! i))"
proof (induction xs arbitrary: hs)
  case Nil
  then show ?case by simp
next
  case (Cons x xs)
  then obtain h hs' where h: "history_entry x = Inr h" "map_history xs = Inr hs'" "hs = h # hs'"
    by (auto split: sum.splits)
  with Cons.IH [of hs'] show ?case
    by (auto simp: nth_Cons split: nat.splits)
qed

lemma build_messages_Inr:
  assumes "build_messages f = Inr ms"
  obtains p xs hs where "systemPrompt (selectedText f) = Inr p"
    and "conversationHistory f = Arr xs"
    and "map_history xs = Inr hs"
    and "ms = \<lparr>role = js ''system'', content = Plain (Str p)\<rparr>
              # hs @ [current_message (message f) (image f)]"
  using assms
  by (auto simp: build_messages_def split: sum.splits jsval.splits)

lemmas tutor_defs =
  tutor_def tutor_try_def destructure_def nullish_def message_missing_def build_messages_def
  systemPrompt_def history_entry_def property_def current_message_def create_params_def
  completion_reply_def catch_error_def

lemma history_entry_content:
  "history_entry x = Inr h \<Longrightarrow>
   content h = (if truthy (get x (js ''image''))
                then Parts [Text_part (get x (js ''content'')), Image_url_part (get x (js ''image''))]
                else Plain (get x (js ''content'')))"
  by (auto simp: history_entry_def property_def split: if_splits)

lemma calls_tutor: "calls (tutor e create b) = fst (tutor_try e create b)"
  by (simp add: tutor_def split: prod.split sum.split)

lemma rejected_reply:
  assumes "c \<in> set (calls (tutor e create b))"
    and "create c = Rejected err"
  shows "reply (tutor e create b) = catch_error e err"
proof -
  from assms(1) have
    "reply (tutor e create b) =
       (case create c of
          Rejected err \<Rightarrow> catch_error e err
        | Resolved completion \<Rightarrow>
            (case completion_reply completion of
               Inl err \<Rightarrow> catch_error e err
             | Inr r \<Rightarrow> r))"
    by (rule tutor_call)
  with assms(2) show ?thesis
    by simp
qed

lemma example_call:
  "calls (tutor \<lparr>OPENAI_API_KEY = Some (js ''sk-test''), NODE_ENV = nenv, ALLOWED_ORIGINS = None\<rparr>
            create (Obj [(js ''message'', Str (js ''What is 2+2?''))])) \<noteq> []"
proof -
  have "\<not> (\<forall>c\<in>set (js ''What is 2+2?''). is_white_space c)"
    by (simp add: js_def is_white_space_def)
  then show ?thesis
    by (simp add: calls_tutor tutor_try_def destructure_def nullish_def message_missing_def
        build_messages_def systemPrompt_def trim_eq_Nil_iff split: upstream_result.split)
qed


section \<open>Validation\<close>




text \<open>
  Claim C2, as stated, fails: the handler validates the request before it looks at the
  credential, so a request without message and image is answered with status 400 when
  the credential is missing too.
\<close>

theorem tutor_misconfigured_counterexample:
  "OPENAI_API_KEY \<lparr>OPENAI_API_KEY = None, NODE_ENV = None, ALLOWED_ORIGINS = None\<rparr> = None \<and>
   reply (tutor \<lparr>OPENAI_API_KEY = None, NODE_ENV = None, ALLOWED_ORIGINS = None\<rparr>
            upstream_answers (Obj [])) =
     \<lparr>status = 400, body = Error_json (js ''Message or image is required'') None\<rparr>"
  by (simp add: tutor_defs)

text \<open>
  Claim C2, amended.  When the credential is not configured (the variable is unset or
  empty) and the request passes validation, that is, its \<^verbatim>\<open>message\<close> is a string with
  a character that is not white space, or it carries an \<^verbatim>\<open>image\<close> beside a message
  that is absent, falsy or a string, the handler answers with status 500 and the
  misconfiguration message, and makes no upstream call.
\<close>

theorem tutor_misconfigured:
  assumes "OPENAI_API_KEY e = None \<or> OPENAI_API_KEY e = Some []"
    and "(\<exists>s. get b (js ''message'') = Str s \<and> \<not> (\<forall>c\<in>set s. is_white_space c))
         \<or> (truthy (get b (js ''image''))
             \<and> (\<not> truthy (get b (js ''message'')) \<or> (\<exists>s. get b (js ''message'') = Str s)))"
  shows "tutor e create b =
           \<lparr>calls = [],
            reply = \<lparr>status = 500,
                     body = Error_json (js ''OpenAI API key not configured. Please set OPENAI_API_KEY environment variable.'') None\<rparr>\<rparr>"
proof -
  have key: "\<not> truthy (or_undefined (OPENAI_API_KEY e))"
    using assms(1) by auto
  have "\<not> nullish b"
    using assms(2) by (cases b) (auto simp: nullish_def)
  then have d: "destructure b = Inr \<lparr>message = get b (js ''message''),
                conversationHistory =
                  (if get b (js ''conversationHistory'') = Undefined then Arr []
                   else get b (js ''conversationHistory'')),
                selectedText =
                  (if get b (js ''selectedText'') = Undefined then Str []
                   else get b (js ''selectedText'')),
                image = get b (js ''image'')\<rparr>"
    by (simp add: destructure_def)
  have "\<exists>r. message_missing (get b (js ''message'')) = Inr r
             \<and> \<not> (r \<and> \<not> truthy (get b (js ''image'')))"
    using assms(2)
  proof (elim disjE exE conjE)
    fix s
    assume "get b (js ''message'') = Str s" "\<not> (\<forall>c\<in>set s. is_white_space c)"
    then have "message_missing (get b (js ''message'')) = Inr False"
      by (auto simp: message_missing_def trim_eq_Nil_iff)
    then show ?thesis
      by auto
  next
    assume "truthy (get b (js ''image''))" "\<not> truthy (get b (js ''message''))"
    then show ?thesis
      by (auto simp: message_missing_def)
  next
    fix s
    assume "truthy (get b (js ''image''))" "get b (js ''message'') = Str s"
    then show ?thesis
      by (auto simp: message_missing_def)
  qed
  then obtain r where
    r: "message_missing (get b (js ''message'')) = Inr r"
       "\<not> (r \<and> \<not> truthy (get b (js ''image'')))"
    by blast
  show ?thesis
    using key d r by (auto simp: tutor_def tutor_try_def)
qed

theorem tutor_misconfigured_witness:
  "tutor \<lparr>OPENAI_API_KEY = None, NODE_ENV = None, ALLOWED_ORIGINS = None\<rparr> upstream_answers
     (Obj [(js ''message'', Str (js ''What is 2+2?''))]) =
     \<lparr>calls = [],
      reply = \<lparr>status = 500,
               body = Error_json (js ''OpenAI API key not configured. Please set OPENAI_API_KEY environment variable.'') None\<rparr>\<rparr>"
proof -
  have "\<not> (\<forall>c\<in>set (js ''What is 2+2?''). is_white_space c)"
    by (simp add: js_def is_white_space_def)
  then show ?thesis
    using tutor_misconfigured
      [of "\<lparr>OPENAI_API_KEY = None, NODE_ENV = None, ALLOWED_ORIGINS = None\<rparr>"
          "Obj [(js ''message'', Str (js ''What is 2+2?''))]" upstream_answers]
    by simp
qed


section \<open>Model selection\<close>

text \<open>
  Claim C3.  In every upstream call the handler makes, the model is \<^verbatim>\<open>gpt-4o\<close> exactly
  when the request's \<^verbatim>\<open>image\<close> is truthy, and \<^verbatim>\<open>gpt-4o-mini\<close> exactly when it is
  not; for an image that is a string, truthy means non-empty.  The message plays no part:
  the example is a request with an empty message and an image, which reaches the upstream
  with \<^verbatim>\<open>gpt-4o\<close>.
\<close>

theorem tutor_model_selection:
  assumes "c \<in> set (calls (tutor e create b))"
  shows "(model c = js ''gpt-4o'' \<longleftrightarrow> truthy (get b (js ''image'')))
       \<and> (model c = js ''gpt-4o-mini'' \<longleftrightarrow> \<not> truthy (get b (js ''image'')))
       \<and> (\<forall>s. get b (js ''image'') = Str s \<longrightarrow> (model c = js ''gpt-4o'' \<longleftrightarrow> s \<noteq> []))"
proof -
  from assms obtain f ms where "destructure b = Inr f" "c = create_params f ms"
    by (rule tutor_call)
  then show ?thesis
    by (auto simp: create_params_def destructure_Inr(2))
qed

theorem tutor_model_selection_witness:
  "calls (tutor \<lparr>OPENAI_API_KEY = Some (js ''sk-test''), NODE_ENV = None, ALLOWED_ORIGINS = None\<rparr>
            upstream_answers
            (Obj [(js ''message'', Str []), (js ''image'', Str (js ''data:image/png;base64,AAAA''))]))
   \<noteq> [] \<and>
   model (hd (calls (tutor \<lparr>OPENAI_API_KEY = Some (js ''sk-test''), NODE_ENV = None, ALLOWED_ORIGINS = None\<rparr>
            upstream_answers
            (Obj [(js ''message'', Str []), (js ''image'', Str (js ''data:image/png;base64,AAAA''))]))))
   = js ''gpt-4o''"
proof -
  let ?e = "\<lparr>OPENAI_API_KEY = Some (js ''sk-test''), NODE_ENV = None, ALLOWED_ORIGINS = None\<rparr>"
  let ?b = "Obj [(js ''message'', Str []), (js ''image'', Str (js ''data:image/png;base64,AAAA''))]"
  have ne: "calls (tutor ?e upstream_answers ?b) \<noteq> []"
    by (simp add: tutor_defs upstream_answers_def)
  then have "hd (calls (tutor ?e upstream_answers ?b)) \<in> set (calls (tutor ?e upstream_answers ?b))"
    by (rule hd_in_set)
  from tutor_model_selection [OF this] ne show ?thesis
    by simp
qed


section \<open>Translation of the conversation history\<close>

text \<open>
  Claim C4.  In every upstream call the handler makes, the message that follows the system
  message at distance \<open>i\<close> is the translation of entry \<open>i\<close> of
  \<^verbatim>\<open>conversationHistory\<close>: when the entry carries an image, its content is the two-part
  block of the entry's text content first and the entry's image reference second, both
  unchanged; when it carries none, its content is the entry's content as plain text.
\<close>

theorem history_translation:
  assumes "c \<in> set (calls (tutor e create b))"
    and "get b (js ''conversationHistory'') = Arr xs"
    and "i < length xs"
  shows "Suc i < length (messages c) \<and>
         content (messages c ! Suc i) =
           (if truthy (get (xs ! i) (js ''image''))
            then Parts [Text_part (get (xs ! i) (js ''content'')),
                        Image_url_part (get (xs ! i) (js ''image''))]
            else Plain (get (xs ! i) (js ''content'')))"
proof -
  from assms(1) obtain f ms where f: "destructure b = Inr f"
    and ms: "build_messages f = Inr ms" and c: "c = create_params f ms"
    by (rule tutor_call)
  from ms obtain p ys hs where ys: "conversationHistory f = Arr ys"
    and hs: "map_history ys = Inr hs"
    and ms_eq: "ms = \<lparr>role = js ''system'', content = Plain (Str p)\<rparr>
                     # hs @ [current_message (message f) (image f)]"
    by (rule build_messages_Inr)
  have "ys = xs"
    using ys assms(2) destructure_Inr(3) [OF f] by simp
  with hs have len: "length hs = length xs"
    and entry: "history_entry (xs ! i) = Inr (hs ! i)"
    using map_history_Inr [of xs hs] assms(3) by simp_all
  have "messages c ! Suc i = hs ! i"
    using c ms_eq len assms(3) by (simp add: create_params_def nth_append)
  moreover have "Suc i < length (messages c)"
    using c ms_eq len assms(3) by (simp add: create_params_def)
  ultimately show ?thesis
    using history_entry_content [OF entry] by simp
qed

theorem history_translation_witness:
  "content (messages (hd (calls (tutor
     \<lparr>OPENAI_API_KEY = Some (js ''sk-test''), NODE_ENV = None, ALLOWED_ORIGINS = None\<rparr>
     upstream_answers
     (Obj [(js ''message'', Str (js ''And now?'')),
           (js ''conversationHistory'',
            Arr [Obj [(js ''role'', Str (js ''user'')), (js ''content'', Str (js ''Look'')),
                      (js ''image'', Str (js ''data:image/png;base64,AAAA''))],
                 Obj [(js ''role'', Str (js ''assistant'')),
                      (js ''content'', Str (js ''A triangle''))]])])))) ! 1)
   = Parts [Text_part (Str (js ''Look'')), Image_url_part (Str (js ''data:image/png;base64,AAAA''))]
   \<and>
   content (messages (hd (calls (tutor
     \<lparr>OPENAI_API_KEY = Some (js ''sk-test''), NODE_ENV = None, ALLOWED_ORIGINS = None\<rparr>
     upstream_answers
     (Obj [(js ''message'', Str (js ''And now?'')),
           (js ''conversationHistory'',
            Arr [Obj [(js ''role'', Str (js ''user'')), (js ''content'', Str (js ''Look'')),
                      (js ''image'', Str (js ''data:image/png;base64,AAAA''))],
                 Obj [(js ''role'', Str (js ''assistant'')),
                      (js ''content'', Str (js ''A triangle''))]])])))) ! 2)
   = Plain (Str (js ''A triangle''))"
proof -
  let ?e = "\<lparr>OPENAI_API_KEY = Some (js ''sk-test''), NODE_ENV = None, ALLOWED_ORIGINS = None\<rparr>"
  let ?xs = "[Obj [(js ''role'', Str (js ''user'')), (js ''content'', Str (js ''Look'')),
                      (js ''image'', Str (js ''data:image/png;base64,AAAA''))],
                 Obj [(js ''role'', Str (js ''assistant'')),
                      (js ''content'', Str (js ''A triangle''))]]"
  let ?b = "Obj [(js ''message'', Str (js ''And now?'')), (js ''conversationHistory'', Arr ?xs)]"
  have "\<not> (\<forall>c\<in>set (js ''And now?''). is_white_space c)"
    by (simp add: js_def is_white_space_def)
  then have ne: "calls (tutor ?e upstream_answers ?b) \<noteq> []"
    by (simp add: tutor_defs upstream_answers_def trim_eq_Nil_iff)
  then have mem: "hd (calls (tutor ?e upstream_answers ?b)) \<in> set (calls (tutor ?e upstream_answers ?b))"
    by (rule hd_in_set)
  have h: "get ?b (js ''conversationHistory'') = Arr ?xs"
    by simp
  show ?thesis
    using history_translation [OF mem h, of 0] history_translation [OF mem h, of 1]
    by (simp add: numeral_2_eq_2)
qed


section \<open>Mapping of upstream failures\<close>

text \<open>
  Claim C5.  When the upstream call of a request is rejected with status 429, the response
  is status 429 with the rate-limit message; status 401 gives 401 with the invalid-key
  message, and status 500 gives 500 with the upstream-error message.  The request body
  plays no part beyond reaching the call.
\<close>

theorem upstream_status_mapping:
  assumes "c \<in> set (calls (tutor e create b))"
    and "create c = Rejected err"
  shows "(error_status err = Some 429 \<longrightarrow>
            reply (tutor e create b) =
              \<lparr>status = 429,
               body = Error_json (js ''Rate limit exceeded. Please try again later.'') None\<rparr>)
       \<and> (error_status err = Some 401 \<longrightarrow>
            reply (tutor e create b) =
              \<lparr>status = 401, body = Error_json (js ''Invalid OpenAI API key'') None\<rparr>)
       \<and> (error_status err = Some 500 \<longrightarrow>
            reply (tutor e create b) =
              \<lparr>status = 500,
               body = Error_json (js ''OpenAI service error. Please try again later.'') None\<rparr>)"
proof -
  have "reply (tutor e create b) = catch_error e err"
    using assms by (rule rejected_reply)
  then show ?thesis
    by (simp add: catch_error_def)
qed

theorem upstream_status_mapping_witness:
  "status (reply (tutor \<lparr>OPENAI_API_KEY = Some (js ''sk-test''), NODE_ENV = None, ALLOWED_ORIGINS = None\<rparr>
            (upstream_rejects (Some 429)) (Obj [(js ''message'', Str (js ''What is 2+2?''))]))) = 429
   \<and>
   status (reply (tutor \<lparr>OPENAI_API_KEY = Some (js ''sk-test''), NODE_ENV = None, ALLOWED_ORIGINS = None\<rparr>
            (upstream_rejects (Some 401)) (Obj [(js ''message'', Str (js ''What is 2+2?''))]))) = 401
   \<and>
   status (reply (tutor \<lparr>OPENAI_API_KEY = Some (js ''sk-test''), NODE_ENV = None, ALLOWED_ORIGINS = None\<rparr>
            (upstream_rejects (Some 500)) (Obj [(js ''message'', Str (js ''What is 2+2?''))]))) = 500"
proof -
  let ?e = "\<lparr>OPENAI_API_KEY = Some (js ''sk-test''), NODE_ENV = None, ALLOWED_ORIGINS = None\<rparr>"
  let ?b = "Obj [(js ''message'', Str (js ''What is 2+2?''))]"
  have mem: "hd (calls (tutor ?e (upstream_rejects st) ?b))
               \<in> set (calls (tutor ?e (upstream_rejects st) ?b))" for st
    using example_call by (rule hd_in_set)
  have rej: "upstream_rejects st c = Rejected (OpenAIError st (js ''upstream failure''))" for st c
    by (simp add: upstream_rejects_def)
  show ?thesis
    using upstream_status_mapping [OF mem rej, of "Some 429"]
      upstream_status_mapping [OF mem rej, of "Some 401"]
      upstream_status_mapping [OF mem rej, of "Some 500"]
    by simp
qed

text \<open>
  Claim C6.  When the upstream call is rejected with any other status, or none, the
  response is status 500 with the generic failure message.  The detail is the error's
  message when \<^verbatim>\<open>NODE_ENV\<close> is \<^verbatim>\<open>development\<close> and is left out otherwise; in
  particular it is left out in production.
\<close>

theorem upstream_other_failure:
  assumes "c \<in> set (calls (tutor e create b))"
    and "create c = Rejected err"
    and "error_status err \<notin> {Some 401, Some 429, Some 500}"
  shows "reply (tutor e create b) =
           \<lparr>status = 500,
            body = Error_json (js ''Failed to get AI response'')
                     (if NODE_ENV e = Some (js ''development'') then Some (error_message err)
                      else None)\<rparr>
       \<and> (NODE_ENV e = Some (js ''production'') \<longrightarrow>
            body (reply (tutor e create b)) = Error_json (js ''Failed to get AI response'') None)"
proof -
  have "reply (tutor e create b) = catch_error e err"
    using assms(1,2) by (rule rejected_reply)
  then show ?thesis
    using assms(3) by (simp add: catch_error_def)
qed

theorem upstream_other_failure_witness:
  "reply (tutor \<lparr>OPENAI_API_KEY = Some (js ''sk-test''), NODE_ENV = Some (js ''production''),
                  ALLOWED_ORIGINS = None\<rparr>
            (upstream_rejects (Some 503)) (Obj [(js ''message'', Str (js ''What is 2+2?''))])) =
     \<lparr>status = 500, body = Error_json (js ''Failed to get AI response'') None\<rparr>
   \<and>
   reply (tutor \<lparr>OPENAI_API_KEY = Some (js ''sk-test''), NODE_ENV = Some (js ''development''),
                  ALLOWED_ORIGINS = None\<rparr>
            (upstream_rejects None) (Obj [(js ''message'', Str (js ''What is 2+2?''))])) =
     \<lparr>status = 500,
      body = Error_json (js ''Failed to get AI response'')
               (Some (Upstream_text (js ''upstream failure'')))\<rparr>"
proof -
  let ?b = "Obj [(js ''message'', Str (js ''What is 2+2?''))]"
  have mem: "hd (calls (tutor \<lparr>OPENAI_API_KEY = Some (js ''sk-test''), NODE_ENV = nenv,
                                 ALLOWED_ORIGINS = None\<rparr> (upstream_rejects st) ?b))
               \<in> set (calls (tutor \<lparr>OPENAI_API_KEY = Some (js ''sk-test''), NODE_ENV = nenv,
                                 ALLOWED_ORIGINS = None\<rparr> (upstream_rejects st) ?b))" for st nenv
    using example_call by (rule hd_in_set)
  have rej: "upstream_rejects st c = Rejected (OpenAIError st (js ''upstream failure''))" for st c
    by (simp add: upstream_rejects_def)
  have st: "error_status (OpenAIError (Some 503) (js ''upstream failure''))
              \<notin> {Some 401, Some 429, Some 500}"
    "error_status (OpenAIError None (js ''upstream failure''))
              \<notin> {Some 401, Some 429, Some 500}"
    by simp_all
  show ?thesis
    using upstream_other_failure [OF mem rej st(1), of "Some (js ''production'')"]
      upstream_other_failure [OF mem rej st(2), of "Some (js ''development'')"]
    by simp
qed


section \<open>The CORS policy\<close>

text \<open>
  Claim C7, as stated, fails: the callback tests \<^verbatim>\<open>!origin\<close>, so a request whose
  \<^verbatim>\<open>Origin\<close> header is present and empty is let through although the empty string is
  not in the allow-list.
\<close>

theorem cors_policy_counterexample:
  "app \<lparr>OPENAI_API_KEY = Some (js ''sk-test''), NODE_ENV = None, ALLOWED_ORIGINS = None\<rparr>
     upstream_answers \<lparr>origin = Some [], route = POST_tutor (Obj [])\<rparr> \<noteq> CORS_error
   \<and> [] \<notin> set (allowedOrigins
                 \<lparr>OPENAI_API_KEY = Some (js ''sk-test''), NODE_ENV = None, ALLOWED_ORIGINS = None\<rparr>)"
  by (simp add: app_def cors_origin_def allowedOrigins_def)

text \<open>
  Claim C7, amended.  A request with no \<^verbatim>\<open>Origin\<close> header, or an empty one, is let
  through to its route handler.  A request with a non-empty \<^verbatim>\<open>Origin\<close> is let through
  exactly when the origin is in the allow-list, and is otherwise refused by the CORS layer
  without its handler being run.  The allow-list is the two fixed origins when
  \<^verbatim>\<open>ALLOWED_ORIGINS\<close> is unset.
\<close>

theorem cors_policy:
  "app e create req =
     (if origin req = None \<or> origin req = Some []
         \<or> origin req \<in> Some ` set (allowedOrigins e)
      then Handled (handler e create (route req))
      else CORS_error)
   \<and> (ALLOWED_ORIGINS e = None \<longrightarrow>
        allowedOrigins e = [js ''http://localhost:5173'', js ''https://barbarapdfeditor.net''])"
proof -
  have "cors_origin (allowedOrigins e) (origin req) =
          (if origin req = None \<or> origin req = Some []
              \<or> origin req \<in> Some ` set (allowedOrigins e)
           then Allow else Not_allowed_by_CORS)"
    by (cases "origin req") (auto simp: cors_origin_def)
  then show ?thesis
    by (simp add: app_def allowedOrigins_def)
qed

theorem cors_policy_witness:
  "app \<lparr>OPENAI_API_KEY = None, NODE_ENV = None, ALLOWED_ORIGINS = None\<rparr> upstream_answers
     \<lparr>origin = Some (js ''https://evil.example''), route = GET_health\<rparr> = CORS_error
   \<and>
   app \<lparr>OPENAI_API_KEY = None, NODE_ENV = None, ALLOWED_ORIGINS = None\<rparr> upstream_answers
     \<lparr>origin = Some (js ''https://barbarapdfeditor.net''), route = GET_health\<rparr> =
     Handled \<lparr>calls = [],
              reply = health \<lparr>OPENAI_API_KEY = None, NODE_ENV = None, ALLOWED_ORIGINS = None\<rparr>\<rparr>
   \<and>
   app \<lparr>OPENAI_API_KEY = None, NODE_ENV = None,
        ALLOWED_ORIGINS = Some (js ''https://a.example,https://b.example'')\<rparr> upstream_answers
     \<lparr>origin = Some (js ''https://barbarapdfeditor.net''), route = GET_health\<rparr> = CORS_error
   \<and>
   app \<lparr>OPENAI_API_KEY = None, NODE_ENV = None,
        ALLOWED_ORIGINS = Some (js ''https://a.example,https://b.example'')\<rparr> upstream_answers
     \<lparr>origin = None, route = GET_health\<rparr> =
     Handled \<lparr>calls = [],
              reply = health \<lparr>OPENAI_API_KEY = None, NODE_ENV = None,
                        ALLOWED_ORIGINS = Some (js ''https://a.example,https://b.example'')\<rparr>\<rparr>"
proof -
  let ?d = "\<lparr>OPENAI_API_KEY = None, NODE_ENV = None, ALLOWED_ORIGINS = None\<rparr>"
  let ?c = "\<lparr>OPENAI_API_KEY = None, NODE_ENV = None,
             ALLOWED_ORIGINS = Some (js ''https://a.example,https://b.example'')\<rparr>"
  have l: "allowedOrigins ?c = [js ''https://a.example'', js ''https://b.example'']"
    by (simp add: allowedOrigins_def js_def)
  show ?thesis
    using cors_policy [of ?d upstream_answers
                          "\<lparr>origin = Some (js ''https://evil.example''), route = GET_health\<rparr>"]
      cors_policy [of ?d upstream_answers
                      "\<lparr>origin = Some (js ''https://barbarapdfeditor.net''), route = GET_health\<rparr>"]
      cors_policy [of ?c upstream_answers
                      "\<lparr>origin = Some (js ''https://barbarapdfeditor.net''), route = GET_health\<rparr>"]
      cors_policy [of ?c upstream_answers "\<lparr>origin = None, route = GET_health\<rparr>"]
    by (simp add: l)
qed


section \<open>The health report\<close>

text \<open>
  Claim C8, as stated, fails: \<^verbatim>\<open>!!process.env.OPENAI_API_KEY\<close> is false for a variable
  that is set to the empty string.
\<close>

theorem health_counterexample:
  "OPENAI_API_KEY \<lparr>OPENAI_API_KEY = Some [], NODE_ENV = None, ALLOWED_ORIGINS = None\<rparr> \<noteq> None
   \<and> health \<lparr>OPENAI_API_KEY = Some [], NODE_ENV = None, ALLOWED_ORIGINS = None\<rparr> =
       \<lparr>status = 200,
        body = Health_json (js ''ok'') (js ''BarbaraPDF Backend Running'') False\<rparr>"
  by (simp add: health_def)

text \<open>
  Claim C8, amended.  The health handler always answers with status 200, and
  \<^verbatim>\<open>openaiConfigured\<close> is true exactly when the credential variable is set to a
  non-empty value.
\<close>

theorem health_reply:
  "health e =
     \<lparr>status = 200,
      body = Health_json (js ''ok'') (js ''BarbaraPDF Backend Running'')
               (OPENAI_API_KEY e \<noteq> None \<and> OPENAI_API_KEY e \<noteq> Some [])\<rparr>"
  by (cases "OPENAI_API_KEY e") (simp_all add: health_def)

theorem health_reply_witness:
  "health \<lparr>OPENAI_API_KEY = Some (js ''sk-test''), NODE_ENV = None, ALLOWED_ORIGINS = None\<rparr> =
     \<lparr>status = 200,
      body = Health_json (js ''ok'') (js ''BarbaraPDF Backend Running'') True\<rparr>
   \<and>
   health \<lparr>OPENAI_API_KEY = None, NODE_ENV = None, ALLOWED_ORIGINS = None\<rparr> =
     \<lparr>status = 200,
      body = Health_json (js ''ok'') (js ''BarbaraPDF Backend Running'') False\<rparr>"
  using health_reply [of "\<lparr>OPENAI_API_KEY = Some (js ''sk-test''), NODE_ENV = None, ALLOWED_ORIGINS = None\<rparr>"]
    health_reply [of "\<lparr>OPENAI_API_KEY = None, NODE_ENV = None, ALLOWED_ORIGINS = None\<rparr>"]
  by simp


section \<open>The current message\<close>

text \<open>
  Claim C9.  In every upstream call made for a request that carries an image and whose
  \<^verbatim>\<open>message\<close> is absent or empty, the last message, the current one, is the user
  message whose text part is \<^verbatim>\<open>What do you see in this image?\<close> and whose image part is the
  request's image.
\<close>

theorem image_fallback_text:
  assumes "c \<in> set (calls (tutor e create b))"
    and "truthy (get b (js ''image''))"
    and "get b (js ''message'') = Undefined \<or> get b (js ''message'') = Str []"
  shows "messages c \<noteq> [] \<and>
         last (messages c) =
           \<lparr>role = js ''user'',
            content = Parts [Text_part (Str (js ''What do you see in this image?'')),
                             Image_url_part (get b (js ''image''))]\<rparr>"
proof -
  from assms(1) obtain f ms where f: "destructure b = Inr f"
    and ms: "build_messages f = Inr ms" and c: "c = create_params f ms"
    by (rule tutor_call)
  from ms obtain p ys hs where
    "ms = \<lparr>role = js ''system'', content = Plain (Str p)\<rparr>
          # hs @ [current_message (message f) (image f)]"
    by (rule build_messages_Inr)
  then have "messages c \<noteq> []"
    and "last (messages c) = current_message (get b (js ''message'')) (get b (js ''image''))"
    using c destructure_Inr(1,2) [OF f] by (simp_all add: create_params_def)
  then show ?thesis
    using assms(2,3) by (auto simp: current_message_def)
qed

theorem image_fallback_text_witness:
  "last (messages (hd (calls (tutor
     \<lparr>OPENAI_API_KEY = Some (js ''sk-test''), NODE_ENV = None, ALLOWED_ORIGINS = None\<rparr>
     upstream_answers
     (Obj [(js ''image'', Str (js ''data:image/png;base64,AAAA''))]))))) =
     \<lparr>role = js ''user'',
      content = Parts [Text_part (Str (js ''What do you see in this image?'')),
                       Image_url_part (Str (js ''data:image/png;base64,AAAA''))]\<rparr>"
proof -
  let ?e = "\<lparr>OPENAI_API_KEY = Some (js ''sk-test''), NODE_ENV = None, ALLOWED_ORIGINS = None\<rparr>"
  let ?b = "Obj [(js ''image'', Str (js ''data:image/png;base64,AAAA''))]"
  have "calls (tutor ?e upstream_answers ?b) \<noteq> []"
    by (simp add: calls_tutor tutor_try_def destructure_def nullish_def message_missing_def
        build_messages_def systemPrompt_def split: upstream_result.split)
  then have mem: "hd (calls (tutor ?e upstream_answers ?b)) \<in> set (calls (tutor ?e upstream_answers ?b))"
    by (rule hd_in_set)
  show ?thesis
    using image_fallback_text [OF mem] by simp
qed

text \<open>
  Claim C10.  A request whose \<^verbatim>\<open>image\<close> is the empty string is treated as one without
  image: with a message that is absent, empty or white space only it is answered with
  status 400 and no upstream call; every upstream call made for it uses
  \<^verbatim>\<open>gpt-4o-mini\<close>; and the handler does the same as on any request that has no
  \<^verbatim>\<open>image\<close> and agrees on every other property.
\<close>

theorem empty_image_is_no_image:
  assumes "get b (js ''image'') = Str []"
  shows "(get b (js ''message'') = Undefined
            \<or> (\<exists>s. get b (js ''message'') = Str s \<and> (\<forall>c\<in>set s. is_white_space c))
          \<longrightarrow> tutor e create b =
                \<lparr>calls = [],
                 reply = \<lparr>status = 400,
                          body = Error_json (js ''Message or image is required'') None\<rparr>\<rparr>)
       \<and> (\<forall>c\<in>set (calls (tutor e create b)). model c = js ''gpt-4o-mini'')
       \<and> (\<forall>b'. \<not> nullish b' \<and> get b' (js ''image'') = Undefined
                \<and> (\<forall>k. k \<noteq> js ''image'' \<longrightarrow> get b' k = get b k)
             \<longrightarrow> tutor e create b' = tutor e create b)"
proof (intro conjI impI ballI allI)
  have nn: "\<not> nullish b"
    using assms by (cases b) (simp_all add: nullish_def)
  {
    assume "get b (js ''message'') = Undefined
            \<or> (\<exists>s. get b (js ''message'') = Str s \<and> (\<forall>c\<in>set s. is_white_space c))"
    then have "message_missing (get b (js ''message'')) = Inr True"
      by (rule message_missing_blank)
    then show "tutor e create b =
                \<lparr>calls = [],
                 reply = \<lparr>status = 400,
                          body = Error_json (js ''Message or image is required'') None\<rparr>\<rparr>"
      using assms nn by (simp add: tutor_def tutor_try_def destructure_def)
  }
  {
    fix c assume "c \<in> set (calls (tutor e create b))"
    then obtain f ms where "destructure b = Inr f" "c = create_params f ms"
      by (rule tutor_call)
    then show "model c = js ''gpt-4o-mini''"
      using assms by (simp add: create_params_def destructure_Inr(2))
  }
  {
    fix b'
    assume a: "\<not> nullish b' \<and> get b' (js ''image'') = Undefined
                \<and> (\<forall>k. k \<noteq> js ''image'' \<longrightarrow> get b' k = get b k)"
    define f where "f = \<lparr>message = get b (js ''message''),
                conversationHistory =
                  (if get b (js ''conversationHistory'') = Undefined then Arr []
                   else get b (js ''conversationHistory'')),
                selectedText =
                  (if get b (js ''selectedText'') = Undefined then Str []
                   else get b (js ''selectedText'')),
                image = Str []\<rparr>"
    have d: "destructure b = Inr f"
      using nn assms by (simp add: destructure_def f_def)
    have d': "destructure b' = Inr (f\<lparr>image := Undefined\<rparr>)"
      using a by (simp add: destructure_def f_def)
    have bm: "build_messages (f\<lparr>image := Undefined\<rparr>) = build_messages f"
      by (simp add: build_messages_def current_message_def f_def split: sum.split jsval.split)
    have cp: "create_params (f\<lparr>image := Undefined\<rparr>) ms = create_params f ms" for ms
      by (simp add: create_params_def f_def)
    have im: "\<not> truthy (image f)" "message (f\<lparr>image := Undefined\<rparr>) = message f"
      by (simp_all add: f_def)
    have "tutor_try e create b' = tutor_try e create b"
      unfolding tutor_try_def d d' by (simp add: bm cp im split: sum.split upstream_result.split)
    then show "tutor e create b' = tutor e create b"
      by (simp add: tutor_def)
  }
qed

theorem empty_image_is_no_image_witness:
  "tutor \<lparr>OPENAI_API_KEY = Some (js ''sk-test''), NODE_ENV = None, ALLOWED_ORIGINS = None\<rparr>
     upstream_answers (Obj [(js ''message'', Str (js ''  '')), (js ''image'', Str [])]) =
     \<lparr>calls = [],
      reply = \<lparr>status = 400,
               body = Error_json (js ''Message or image is required'') None\<rparr>\<rparr>
   \<and>
   calls (tutor \<lparr>OPENAI_API_KEY = Some (js ''sk-test''), NODE_ENV = None, ALLOWED_ORIGINS = None\<rparr>
     upstream_answers
     (Obj [(js ''message'', Str (js ''What is 2+2?'')), (js ''image'', Str [])])) \<noteq> []
   \<and>
   model (hd (calls (tutor
     \<lparr>OPENAI_API_KEY = Some (js ''sk-test''), NODE_ENV = None, ALLOWED_ORIGINS = None\<rparr>
     upstream_answers
     (Obj [(js ''message'', Str (js ''What is 2+2?'')), (js ''image'', Str [])])))) =
     js ''gpt-4o-mini''
   \<and>
   tutor \<lparr>OPENAI_API_KEY = Some (js ''sk-test''), NODE_ENV = None, ALLOWED_ORIGINS = None\<rparr>
     upstream_answers (Obj [(js ''message'', Str (js ''What is 2+2?''))]) =
   tutor \<lparr>OPENAI_API_KEY = Some (js ''sk-test''), NODE_ENV = None, ALLOWED_ORIGINS = None\<rparr>
     upstream_answers
     (Obj [(js ''message'', Str (js ''What is 2+2?'')), (js ''image'', Str [])])"
proof -
  let ?e = "\<lparr>OPENAI_API_KEY = Some (js ''sk-test''), NODE_ENV = None, ALLOWED_ORIGINS = None\<rparr>"
  let ?blank = "Obj [(js ''message'', Str (js ''  '')), (js ''image'', Str [])]"
  let ?b = "Obj [(js ''message'', Str (js ''What is 2+2?'')), (js ''image'', Str [])]"
  let ?b' = "Obj [(js ''message'', Str (js ''What is 2+2?''))]"
  have ws: "\<forall>c\<in>set (js ''  ''). is_white_space c"
    by (simp add: js_def is_white_space_def)
  have nws: "\<not> (\<forall>c\<in>set (js ''What is 2+2?''). is_white_space c)"
    by (simp add: js_def is_white_space_def)
  have ne: "calls (tutor ?e upstream_answers ?b) \<noteq> []"
    using nws
    by (simp add: calls_tutor tutor_try_def destructure_def nullish_def message_missing_def
        build_messages_def systemPrompt_def trim_eq_Nil_iff split: upstream_result.split)
  then have mem: "hd (calls (tutor ?e upstream_answers ?b)) \<in> set (calls (tutor ?e upstream_answers ?b))"
    by (rule hd_in_set)
  have same: "\<not> nullish ?b' \<and> get ?b' (js ''image'') = Undefined
              \<and> (\<forall>k. k \<noteq> js ''image'' \<longrightarrow> get ?b' k = get ?b k)"
    by (simp add: nullish_def)
  have 1: "tutor ?e upstream_answers ?blank =
     \<lparr>calls = [],
      reply = \<lparr>status = 400,
               body = Error_json (js ''Message or image is required'') None\<rparr>\<rparr>"
    using empty_image_is_no_image [of ?blank ?e upstream_answers] ws by simp
  have 2: "model (hd (calls (tutor ?e upstream_answers ?b))) = js ''gpt-4o-mini''"
    using empty_image_is_no_image [of ?b ?e upstream_answers] mem by simp
  have 3: "tutor ?e upstream_answers ?b' = tutor ?e upstream_answers ?b"
    using empty_image_is_no_image [of ?b ?e upstream_answers] same by simp
  show ?thesis
    using 1 ne 2 3 by simp
qed

end
